theory Spec2Isabelle
  imports Main
begin

section \<open>Python values and exceptions\<close>

text \<open>
  The repository is two Jupyter notebooks: \<^verbatim>\<open>monitor.ipynb\<close> and a second, unnamed
  notebook (\<^verbatim>\<open>unnamed/part_000\<close>, called the exploration notebook below). Each code
  cell is a straight-line Python script. Exceptions are values: a cell evaluates to
  \<open>Inl e\<close> when the exception \<open>e\<close> reaches the top level.
\<close>

datatype exn =
  AssertionError string
| KeyError string
| FileNotFoundError
| NotADirectoryError
| LibraryError string

section \<open>Counting directory entries\<close>

text \<open>
  What the fixed path \<^verbatim>\<open>PATH_TO_EXAMPLE_OBJECTS\<close> holds when the cell runs. Python 3.11's
  \<^verbatim>\<open>Path.iterdir\<close> is a generator over \<^verbatim>\<open>os.listdir(self)\<close>, the names of the
  immediate entries in the order the operating system reports them; the listing raises
  when the path is missing or is not a directory.
\<close>

datatype fs_node = Missing | RegularFile | Dir "string list"

definition iterdir :: "fs_node \<Rightarrow> exn + string list" where
  "iterdir p =
     (case p of
        Missing \<Rightarrow> Inl FileNotFoundError
      | RegularFile \<Rightarrow> Inl NotADirectoryError
      | Dir names \<Rightarrow> Inr names)"

text \<open>\<^verbatim>\<open>list(it)\<close> collects what the iterator yields; \<^verbatim>\<open>len\<close> is its length.\<close>

definition list_py :: "'a list \<Rightarrow> 'a list" where
  "list_py it = it"

definition len :: "'a list \<Rightarrow> int" where
  "len xs = int (length xs)"

text \<open>
  \<^verbatim>\<open>sum(iterable)\<close> starts from 0 and adds the items from left to right.
\<close>

definition sum_py :: "int list \<Rightarrow> int" where
  "sum_py xs = foldl (\<lambda>acc x. acc + x) 0 xs"

text \<open>
  monitor.ipynb, first cell: \<^verbatim>\<open>len(list(path_to_example_objects.iterdir()))\<close>.
\<close>

definition monitor_dir_count :: "fs_node \<Rightarrow> exn + int" where
  "monitor_dir_count p =
     (case iterdir p of
        Inl e \<Rightarrow> Inl e
      | Inr it \<Rightarrow> Inr (len (list_py it)))"

text \<open>
  Exploration notebook, last cell:
  \<^verbatim>\<open>sum(1 for _ in path_to_example_objects.iterdir())\<close>. The generator expression
  yields one 1 per entry.
\<close>

definition explore_dir_count :: "fs_node \<Rightarrow> exn + int" where
  "explore_dir_count p =
     (case iterdir p of
        Inl e \<Rightarrow> Inl e
      | Inr it \<Rightarrow> Inr (sum_py (map (\<lambda>_. 1) it)))"

text \<open>
  A directory snapshot is the set of names of its immediate entries. A listing of the
  snapshot reports every entry once, in an order the operating system chooses.
\<close>

definition lists_snapshot :: "string set \<Rightarrow> string list \<Rightarrow> bool" where
  "lists_snapshot d names = (distinct names \<and> set names = d)"

section \<open>The client library, as the notebooks see it\<close>

text \<open>
  The connection parameters and timeouts the notebooks pass to
  \<^verbatim>\<open>weaviate.WeaviateClient\<close>: \<^verbatim>\<open>ConnectionParams.from_params\<close> and
  \<^verbatim>\<open>Timeout\<close> (values in seconds).
\<close>

record connection_params =
  http_host :: string
  http_port :: int
  http_secure :: bool
  grpc_host :: string
  grpc_port :: int
  grpc_secure :: bool

record timeout =
  init :: int
  query :: int
  insert :: int

record client_config =
  connection_params :: connection_params
  additional_config :: timeout

text \<open>
  A stored record: the notebooks read only its \<^verbatim>\<open>vector\<close> attribute, a dictionary
  from slot names to lists of numbers. The type of the numbers is left open
  (\<open>'v\<close>): the notebooks never compute with them.
\<close>

record 'v object =
  uuid :: string
  vector :: "string \<rightharpoonup> 'v list"

text \<open>
  The external store: for each collection name, the records by identifier.
\<close>

type_synonym 'v store = "string \<Rightarrow> string \<rightharpoonup> 'v object"

text \<open>
  Calls on the client. The notebooks issue the first six; the \<^verbatim>\<open>data\<close> calls are the
  client's operations that create, replace and delete a record, listed so that the
  absence of writes can be stated.
\<close>

datatype 'v api_call =
  Connect client_config
| IsLive
| CollectionsGet string
| AggregateOverAll string bool
| FetchObjectById string string bool
| Close
| DataInsert string string "'v object"
| DataReplace string string "'v object"
| DataDeleteById string string

fun server_effect :: "'v api_call \<Rightarrow> 'v store \<Rightarrow> 'v store" where
  "server_effect (DataInsert c u ob) st = st(c := (st c)(u \<mapsto> ob))"
| "server_effect (DataReplace c u ob) st = st(c := (st c)(u \<mapsto> ob))"
| "server_effect (DataDeleteById c u) st = st(c := (st c)(u := None))"
| "server_effect _ st = st"

fun is_collection_call :: "'v api_call \<Rightarrow> bool" where
  "is_collection_call (Connect _) = False"
| "is_collection_call IsLive = False"
| "is_collection_call Close = False"
| "is_collection_call _ = True"

fun is_write_call :: "'v api_call \<Rightarrow> bool" where
  "is_write_call (DataInsert _ _ _) = True"
| "is_write_call (DataReplace _ _ _) = True"
| "is_write_call (DataDeleteById _ _) = True"
| "is_write_call _ = False"

text \<open>
  What the service answers in one session. The library and the service are outside the
  repository, so each call's outcome is a parameter: a value, or the exception the call
  raises (a network error, an unknown collection, a malformed identifier).
  \<^verbatim>\<open>fetch_object_by_id\<close> returns \<^verbatim>\<open>None\<close> when no record has the identifier.

  Two calls do more than return or raise. \<^verbatim>\<open>connect()\<close> opens its HTTP client and
  gRPC channel before its start-up checks, so it can raise with the connection already
  open: \<open>connect_opened\<close> says whether a raising \<^verbatim>\<open>connect()\<close> had opened it.
  \<^verbatim>\<open>is_live()\<close> returns \<^verbatim>\<open>False\<close> either because the service answered the probe
  with a status other than 200, or because the probe failed in transport; in the second
  case the library catches the error and prints it to standard output before returning:
  \<open>is_live_caught\<close> is the text of that error, if there was one.
\<close>

record 'v service =
  connect_result :: "exn + unit"
  connect_opened :: bool
  is_live_result :: "exn + bool"
  is_live_caught :: "string option"
  collections_get_result :: "string \<Rightarrow> exn + unit"
  over_all_result :: "string \<Rightarrow> exn + int"
  fetch_object_by_id_result :: "string \<Rightarrow> string \<Rightarrow> exn + 'v object option"

section \<open>Standard output and the state of a run\<close>

text \<open>
  One \<^verbatim>\<open>print\<close> call writes one item: a string, the name of a class
  (\<^verbatim>\<open>print(type(x))\<close>), an integer or a list.
\<close>

datatype 'v printed = PStr string | PType string | PInt int | PList "'v list"

datatype conn_state = NotConnected | Open | Closed

record 'v world =
  out :: "'v printed list"
  trace :: "'v api_call list"
  conn :: conn_state
  store :: "'v store"

definition init_world :: "'v store \<Rightarrow> 'v world" where
  "init_world st = \<lparr>out = [], trace = [], conn = NotConnected, store = st\<rparr>"

type_synonym ('v, 'a) prog = "'v world \<Rightarrow> (exn + 'a) \<times> 'v world"

definition return_py :: "'a \<Rightarrow> ('v, 'a) prog" where
  "return_py x = (\<lambda>w. (Inr x, w))"

definition raise_py :: "exn \<Rightarrow> ('v, 'a) prog" where
  "raise_py e = (\<lambda>w. (Inl e, w))"

text \<open>Sequencing: an exception in the first statement skips the rest.\<close>

definition bind_py :: "('v, 'a) prog \<Rightarrow> ('a \<Rightarrow> ('v, 'b) prog) \<Rightarrow> ('v, 'b) prog" where
  "bind_py m f =
     (\<lambda>w. case m w of
             (Inl e, w') \<Rightarrow> (Inl e, w')
           | (Inr x, w') \<Rightarrow> f x w')"

definition print_py :: "'v printed \<Rightarrow> ('v, unit) prog" where
  "print_py p = (\<lambda>w. (Inr (), w\<lparr>out := out w @ [p]\<rparr>))"

text \<open>
  \<^verbatim>\<open>assert cond, msg\<close> under the default interpreter mode of the notebook kernel
  (\<^verbatim>\<open>__debug__\<close> true).
\<close>

definition assert_py :: "bool \<Rightarrow> string \<Rightarrow> ('v, unit) prog" where
  "assert_py cond msg = (if cond then return_py () else raise_py (AssertionError msg))"

text \<open>\<^verbatim>\<open>d[k]\<close> on a dictionary raises \<^verbatim>\<open>KeyError(k)\<close> for a missing key.\<close>

definition getitem :: "(string \<rightharpoonup> 'a) \<Rightarrow> string \<Rightarrow> ('v, 'a) prog" where
  "getitem d k = (case d k of None \<Rightarrow> raise_py (KeyError k) | Some x \<Rightarrow> return_py x)"

text \<open>
  A call on the client is recorded in the trace, acts on the store as the service
  defines, and returns or raises what the service answers.
\<close>

definition lib_call :: "'v api_call \<Rightarrow> exn + 'a \<Rightarrow> ('v, 'a) prog" where
  "lib_call c r = (\<lambda>w. (r, w\<lparr>trace := trace w @ [c], store := server_effect c (store w)\<rparr>))"

text \<open>
  The \<^verbatim>\<open>with\<close> statement: \<^verbatim>\<open>__enter__\<close> runs first; when it raises, neither the body
  nor \<^verbatim>\<open>__exit__\<close> runs. Otherwise \<^verbatim>\<open>__exit__\<close> runs once when the body is left, with
  the exception the body raised if any, and the exception is raised again unless
  \<^verbatim>\<open>__exit__\<close> returns a true value.
\<close>

definition with_py ::
  "('v, 'c) prog \<Rightarrow> (exn option \<Rightarrow> 'v world \<Rightarrow> bool \<times> 'v world) \<Rightarrow> ('c \<Rightarrow> ('v, unit) prog)
     \<Rightarrow> ('v, unit) prog" where
  "with_py enter exit body =
     (\<lambda>w. case enter w of
             (Inl e, w1) \<Rightarrow> (Inl e, w1)
           | (Inr c, w1) \<Rightarrow>
               (case body c w1 of
                  (Inl e, w2) \<Rightarrow>
                    (case exit (Some e) w2 of
                       (suppress, w3) \<Rightarrow> if suppress then (Inr (), w3) else (Inl e, w3))
                | (Inr u, w2) \<Rightarrow>
                    (case exit None w2 of (suppress, w3) \<Rightarrow> (Inr (), w3))))"

text \<open>
  The client as a context manager: \<^verbatim>\<open>__enter__\<close> calls \<^verbatim>\<open>connect()\<close> and returns the
  client; \<^verbatim>\<open>__exit__\<close> calls \<^verbatim>\<open>close()\<close> and returns \<^verbatim>\<open>None\<close>. A \<^verbatim>\<open>connect()\<close>
  that returns has opened the connection; one that raises leaves it open or not, as the
  service record says.
\<close>

definition client_enter :: "client_config \<Rightarrow> 'v service \<Rightarrow> ('v, unit) prog" where
  "client_enter cfg svc =
     (\<lambda>w. case lib_call (Connect cfg) (connect_result svc) w of
             (Inl e, w1) \<Rightarrow> (Inl e, if connect_opened svc then w1\<lparr>conn := Open\<rparr> else w1)
           | (Inr u, w1) \<Rightarrow> (Inr (), w1\<lparr>conn := Open\<rparr>))"

definition client_exit :: "exn option \<Rightarrow> 'v world \<Rightarrow> bool \<times> 'v world" where
  "client_exit exc w = (False, w\<lparr>trace := trace w @ [Close], conn := Closed\<rparr>)"

text \<open>
  \<^verbatim>\<open>client.is_live()\<close>: a true answer is returned as it is; a false one comes with the
  print of the transport error the library caught, when that is its reason.
\<close>

definition is_live :: "'v service \<Rightarrow> ('v, bool) prog" where
  "is_live svc =
     bind_py (lib_call IsLive (is_live_result svc)) (\<lambda>live.
       if live then return_py True
       else (case is_live_caught svc of
               None \<Rightarrow> return_py False
             | Some msg \<Rightarrow> bind_py (print_py (PStr msg)) (\<lambda>_. return_py False)))"

text \<open>A collection handle is the collection's name.\<close>

definition collections_get :: "'v service \<Rightarrow> string \<Rightarrow> ('v, string) prog" where
  "collections_get svc name =
     bind_py (lib_call (CollectionsGet name) (collections_get_result svc name))
       (\<lambda>_. return_py name)"

text \<open>
  \<^verbatim>\<open>handle.aggregate.over_all(total_count=True).total_count\<close>: with the count
  requested, the attribute is an integer.
\<close>

definition over_all_total_count :: "'v service \<Rightarrow> string \<Rightarrow> ('v, int) prog" where
  "over_all_total_count svc handle =
     lib_call (AggregateOverAll handle True) (over_all_result svc handle)"

definition fetch_object_by_id ::
  "'v service \<Rightarrow> string \<Rightarrow> string \<Rightarrow> bool \<Rightarrow> ('v, 'v object option) prog" where
  "fetch_object_by_id svc handle u include_vector =
     lib_call (FetchObjectById handle u include_vector) (fetch_object_by_id_result svc handle u)"

section \<open>Formatting integers\<close>

text \<open>\<^verbatim>\<open>str(n)\<close> for an integer, as an f-string field formats it.\<close>

function str_nat :: "nat \<Rightarrow> string" where
  "str_nat n =
     (if n < 10 then [''0123456789'' ! n]
      else str_nat (n div 10) @ [''0123456789'' ! (n mod 10)])"
  by pat_completeness auto
termination
  by (relation "measure (\<lambda>n. n)") auto

definition str_int :: "int \<Rightarrow> string" where
  "str_int i = (if i < 0 then CHR ''-'' # str_nat (nat (- i)) else str_nat (nat i))"

section \<open>The notebooks' sessions\<close>

definition HTTP_HOST :: string where "HTTP_HOST = ''localhost''"
definition HTTP_PORT :: int where "HTTP_PORT = 8080"
definition HTTP_SECURE :: bool where "HTTP_SECURE = False"

definition GRPC_HOST :: string where "GRPC_HOST = ''localhost''"
definition GRPC_PORT :: int where "GRPC_PORT = 50051"
definition GRPC_SECURE :: bool where "GRPC_SECURE = False"

definition INTIALISATION_TIMEOUT_S :: int where "INTIALISATION_TIMEOUT_S = 2"
definition QUERY_TIMEOUT_S :: int where "QUERY_TIMEOUT_S = 45"
definition INSERT_TIMEOUT_S :: int where "INSERT_TIMEOUT_S = 120"

definition COLLECTION_NAME :: string where "COLLECTION_NAME = ''Cap3DMM''"
definition DATA_UPLOAD_COLLECTION_NAME :: string where
  "DATA_UPLOAD_COLLECTION_NAME = ''UploadCap3DMM''"

text \<open>Both notebooks build the client from the same constants.\<close>

definition notebook_config :: client_config where
  "notebook_config =
     \<lparr>connection_params =
        \<lparr>http_host = HTTP_HOST, http_port = HTTP_PORT, http_secure = HTTP_SECURE,
         grpc_host = GRPC_HOST, grpc_port = GRPC_PORT, grpc_secure = GRPC_SECURE\<rparr>,
      additional_config =
        \<lparr>init = INTIALISATION_TIMEOUT_S, query = QUERY_TIMEOUT_S, insert = INSERT_TIMEOUT_S\<rparr>\<rparr>"

definition number_of_objects_line :: "string \<Rightarrow> int \<Rightarrow> string" where
  "number_of_objects_line name count =
     ''Number of objects in '' @ name @ '' collection: '' @ str_int count"

definition monitor_uuid :: string where
  "monitor_uuid = ''8e88212e-12ce-5942-954f-f49ed469dfe8''"

text \<open>
  monitor.ipynb, second cell: the body of the \<^verbatim>\<open>with\<close> statement. The fetched
  \<^verbatim>\<open>obj\<close> is \<^verbatim>\<open>None\<close> or a record object, and a record object is true in
  \<^verbatim>\<open>if obj\<close>. Each of the three prints looks \<^verbatim>\<open>obj.vector["default"]\<close> up again.
\<close>

definition monitor_body :: "'v service \<Rightarrow> ('v, unit) prog" where
  "monitor_body svc =
     bind_py (is_live svc) (\<lambda>live.
     bind_py (assert_py live ''Weaviate client is not live'') (\<lambda>_.
     bind_py (print_py (PStr ''Client connection established'')) (\<lambda>_.
     bind_py (collections_get svc COLLECTION_NAME) (\<lambda>cap3d.
     bind_py (over_all_total_count svc cap3d) (\<lambda>cap3d_object_count.
     bind_py (print_py (PStr (number_of_objects_line COLLECTION_NAME cap3d_object_count))) (\<lambda>_.
     bind_py (fetch_object_by_id svc cap3d monitor_uuid True) (\<lambda>obj.
       case obj of
         None \<Rightarrow> return_py ()
       | Some ob \<Rightarrow>
           bind_py (getitem (vector ob) ''default'') (\<lambda>v1.
           bind_py (print_py (PType ''list'')) (\<lambda>_.
           bind_py (getitem (vector ob) ''default'') (\<lambda>v2.
           bind_py (print_py (PInt (len v2))) (\<lambda>_.
           bind_py (getitem (vector ob) ''default'') (\<lambda>v3.
           print_py (PList (take 5 v3))))))))))))))"

definition monitor_session :: "'v service \<Rightarrow> ('v, unit) prog" where
  "monitor_session svc =
     with_py (client_enter notebook_config svc) client_exit (\<lambda>client. monitor_body svc)"

definition explore_uuids :: "string list" where
  "explore_uuids =
     [''46c932c1-d44e-5b30-95d7-4c8909d02fb8'',
      ''91faaa0e-6a0f-5587-a2dd-fd6e2f3ca3e8'',
      ''db04848b-c5dd-5ec1-a340-adcc209e9b5e'',
      ''e574ddc1-3171-5a81-a3aa-d4e2928b9f54'',
      ''baa41176-79e8-5fbb-8b16-7444f228f88a'']"

text \<open>
  Exploration notebook, first cell: the body of the \<^verbatim>\<open>with\<close> statement. It ends by
  binding \<^verbatim>\<open>obj\<close> to what the fetch of \<^verbatim>\<open>uuids[0]\<close> returns, and prints nothing
  about it.
\<close>

definition explore_body :: "'v service \<Rightarrow> ('v, unit) prog" where
  "explore_body svc =
     bind_py (is_live svc) (\<lambda>live.
     bind_py (assert_py live ''Weaviate client is not live'') (\<lambda>_.
     bind_py (print_py (PStr ''Client connection established'')) (\<lambda>_.
     bind_py (collections_get svc COLLECTION_NAME) (\<lambda>cap3d.
     bind_py (over_all_total_count svc cap3d) (\<lambda>cap3d_object_count.
     bind_py (collections_get svc DATA_UPLOAD_COLLECTION_NAME) (\<lambda>cap3d_upload.
     bind_py (over_all_total_count svc cap3d_upload) (\<lambda>cap3d_upload_image_count.
     bind_py (print_py (PStr (number_of_objects_line COLLECTION_NAME cap3d_object_count))) (\<lambda>_.
     bind_py (print_py (PStr (number_of_objects_line DATA_UPLOAD_COLLECTION_NAME
                                cap3d_upload_image_count))) (\<lambda>_.
     bind_py (fetch_object_by_id svc cap3d (explore_uuids ! 0) True) (\<lambda>obj.
       return_py ()))))))))))"

definition explore_session :: "'v service \<Rightarrow> ('v, unit) prog" where
  "explore_session svc =
     with_py (client_enter notebook_config svc) client_exit (\<lambda>client. explore_body svc)"

text \<open>
  A run of a session cell from a fresh kernel state, over a store: the cell's outcome
  and the final state.
\<close>

definition run_monitor :: "'v service \<Rightarrow> 'v store \<Rightarrow> (exn + unit) \<times> 'v world" where
  "run_monitor svc st = monitor_session svc (init_world st)"

definition run_explore :: "'v service \<Rightarrow> 'v store \<Rightarrow> (exn + unit) \<times> 'v world" where
  "run_explore svc st = explore_session svc (init_world st)"

text \<open>
  The monitor notebook as a whole: the value its first cell displays and the run of its
  second cell. The cells are run one by one and share no variable.
\<close>

definition monitor_notebook ::
  "fs_node \<Rightarrow> 'v service \<Rightarrow> 'v store \<Rightarrow> (exn + int) \<times> ((exn + unit) \<times> 'v world)" where
  "monitor_notebook p svc st = (monitor_dir_count p, run_monitor svc st)"

section \<open>Statement vocabulary and concrete services\<close>

text \<open>
  An exception \<open>e\<close> reaches the top level of a session cell after exactly the calls
  \<open>calls\<close>: the run ends in \<open>e\<close>, and the trace is the connection, those calls and the
  closing of the connection, with nothing after it.
\<close>

definition propagates :: "(exn + unit) \<times> 'v world \<Rightarrow> exn \<Rightarrow> 'v api_call list \<Rightarrow> bool" where
  "propagates r e calls =
     (fst r = Inl e \<and> trace (snd r) = Connect notebook_config # calls @ [Close])"

text \<open>
  Concrete services for running the notebooks on explicit inputs: a service that raises
  \<open>e\<close> at one call site and answers every other call (count 2, fetch result \<open>r\<close>).
\<close>

datatype call_site =
  Nowhere
| AtIsLive
| AtCollectionsGet string
| AtOverAll string
| AtFetchObjectById string string

definition faulty_service :: "call_site \<Rightarrow> exn \<Rightarrow> int object option \<Rightarrow> int service" where
  "faulty_service c e r =
     \<lparr>connect_result = Inr (),
      connect_opened = False,
      is_live_result = (if c = AtIsLive then Inl e else Inr True),
      is_live_caught = None,
      collections_get_result = (\<lambda>name. if c = AtCollectionsGet name then Inl e else Inr ()),
      over_all_result = (\<lambda>name. if c = AtOverAll name then Inl e else Inr 2),
      fetch_object_by_id_result =
        (\<lambda>name u. if c = AtFetchObjectById name u then Inl e else Inr r)\<rparr>"

definition example_service :: "int object option \<Rightarrow> int service" where
  "example_service r = faulty_service Nowhere (LibraryError ''unused'') r"

text \<open>
  Three services that are not usable: one answers the liveness probe with a status other
  than 200; one cannot be reached by the probe, so that the library prints the transport
  error; one makes \<^verbatim>\<open>connect()\<close> raise after it has opened the connection.
\<close>

definition not_live_service :: "int service" where
  "not_live_service = (example_service None)\<lparr>is_live_result := Inr False\<rparr>"

definition unreachable_service :: "int service" where
  "unreachable_service =
     (example_service None)
       \<lparr>is_live_result := Inr False, is_live_caught := Some ''[Errno 111] Connection refused''\<rparr>"

definition startup_failure_service :: "int service" where
  "startup_failure_service =
     (example_service None)
       \<lparr>connect_result := Inl (LibraryError ''WeaviateStartUpError''), connect_opened := True\<rparr>"

definition timeout_error :: exn where
  "timeout_error = LibraryError ''timed out''"

definition empty_store :: "int store" where
  "empty_store = (\<lambda>_. Map.empty)"

definition example_object :: "int list \<Rightarrow> int object" where
  "example_object v = \<lparr>uuid = monitor_uuid, vector = [''default'' \<mapsto> v]\<rparr>"

definition object_without_default :: "int object" where
  "object_without_default = \<lparr>uuid = monitor_uuid, vector = Map.empty\<rparr>"

section \<open>Directory counting\<close>

lemma foldl_add_const: "foldl (\<lambda>acc x. acc + x) a (map (\<lambda>_. 1) xs) = a + int (length xs)"
  by (induction xs arbitrary: a) simp_all

lemma sum_py_ones: "sum_py (map (\<lambda>_. 1) xs) = int (length xs)"
  by (simp add: sum_py_def foldl_add_const)

lemma dir_counts_agree: "explore_dir_count p = monitor_dir_count p"
  by (cases p) (simp_all add: explore_dir_count_def monitor_dir_count_def iterdir_def
      sum_py_ones len_def list_py_def)

lemma monitor_dir_count_Dir: "monitor_dir_count (Dir names) = Inr (int (length names))"
  by (simp add: monitor_dir_count_def iterdir_def len_def list_py_def)

lemma lists_snapshot_length: "lists_snapshot d names \<Longrightarrow> length names = card d"
  by (auto simp: lists_snapshot_def distinct_card)

text \<open>
  C7. The two directory-counting expressions are equivalent: on every state of the path
  they give the same outcome, and on a listing of a directory snapshot \<open>d\<close> both give
  the number of immediate entries of \<open>d\<close>.
\<close>

theorem dir_counts_equivalent:
  assumes "lists_snapshot d names"
  shows "monitor_dir_count p = explore_dir_count p
       \<and> monitor_dir_count (Dir names) = Inr (int (card d))
       \<and> explore_dir_count (Dir names) = Inr (int (card d))"
proof -
  have n: "length names = card d"
    using assms by (rule lists_snapshot_length)
  have m: "monitor_dir_count (Dir names) = Inr (int (card d))"
    by (simp add: monitor_dir_count_Dir n)
  from m show ?thesis
    by (simp add: dir_counts_agree)
qed

theorem dir_counts_equivalent_witness:
  "lists_snapshot {''a'', ''b''} [''b'', ''a'']
   \<and> monitor_dir_count Missing = explore_dir_count Missing
   \<and> monitor_dir_count (Dir [''b'', ''a'']) = Inr 2
   \<and> explore_dir_count (Dir [''b'', ''a'']) = Inr 2"
proof -
  have h: "lists_snapshot {''a'', ''b''} [''b'', ''a'']"
    by (auto simp: lists_snapshot_def)
  show ?thesis
    using h dir_counts_equivalent [OF h, of Missing] by simp
qed

text \<open>
  C8. Directory counting is deterministic: two runs over the same snapshot return the
  same count, whatever order each run's listing reports the entries in.
\<close>

theorem dir_count_deterministic:
  assumes "lists_snapshot d names1" and "lists_snapshot d names2"
  shows "monitor_dir_count (Dir names1) = monitor_dir_count (Dir names2)
       \<and> explore_dir_count (Dir names1) = explore_dir_count (Dir names2)"
proof -
  have "length names1 = length names2"
    using assms by (simp add: lists_snapshot_length)
  then have "monitor_dir_count (Dir names1) = monitor_dir_count (Dir names2)"
    by (simp add: monitor_dir_count_Dir)
  then show ?thesis
    by (simp add: dir_counts_agree)
qed

theorem dir_count_deterministic_witness:
  "lists_snapshot {''a'', ''b''} [''a'', ''b''] \<and> lists_snapshot {''a'', ''b''} [''b'', ''a'']
   \<and> monitor_dir_count (Dir [''a'', ''b'']) = monitor_dir_count (Dir [''b'', ''a''])
   \<and> explore_dir_count (Dir [''a'', ''b'']) = explore_dir_count (Dir [''b'', ''a''])"
proof -
  have h1: "lists_snapshot {''a'', ''b''} [''a'', ''b'']"
    by (auto simp: lists_snapshot_def)
  have h2: "lists_snapshot {''a'', ''b''} [''b'', ''a'']"
    by (auto simp: lists_snapshot_def)
  show ?thesis
    using h1 h2 dir_count_deterministic [OF h1 h2] by simp
qed

section \<open>The sessions\<close>

lemmas prog_defs = run_monitor_def run_explore_def monitor_session_def explore_session_def
  monitor_body_def explore_body_def with_py_def client_enter_def client_exit_def
  is_live_def collections_get_def over_all_total_count_def fetch_object_by_id_def
  lib_call_def bind_py_def return_py_def raise_py_def print_py_def assert_py_def getitem_def
  init_world_def

lemmas example_defs = empty_store_def example_object_def object_without_default_def
  faulty_service_def example_service_def not_live_service_def timeout_error_def
  unreachable_service_def startup_failure_service_def

lemmas config_defs = notebook_config_def HTTP_HOST_def HTTP_PORT_def HTTP_SECURE_def
  GRPC_HOST_def GRPC_PORT_def GRPC_SECURE_def INTIALISATION_TIMEOUT_S_def QUERY_TIMEOUT_S_def
  INSERT_TIMEOUT_S_def

lemmas line_defs = number_of_objects_line_def COLLECTION_NAME_def str_int_def

text \<open>
  C1. When the connection is opened, the liveness check is the first call after it. If it
  reports not-live, the cell ends in an \<^verbatim>\<open>AssertionError\<close> whose message is
  \<^verbatim>\<open>Weaviate client is not live\<close> and no collection call is issued; if it reports
  live, execution continues with the statement after the assertion (the first line of
  output, then the first collection call).
\<close>

theorem liveness_assertion:
  assumes "connect_result svc = Inr ()" and "is_live_result svc = Inr live"
  shows "take 2 (trace (snd (run_monitor svc st))) = [Connect notebook_config, IsLive]
       \<and> take 2 (trace (snd (run_explore svc st))) = [Connect notebook_config, IsLive]
       \<and> (\<not> live \<longrightarrow>
            fst (run_monitor svc st) = Inl (AssertionError ''Weaviate client is not live'')
          \<and> fst (run_explore svc st) = Inl (AssertionError ''Weaviate client is not live'')
          \<and> \<not> list_ex is_collection_call (trace (snd (run_monitor svc st)))
          \<and> \<not> list_ex is_collection_call (trace (snd (run_explore svc st))))
       \<and> (live \<longrightarrow>
            take 1 (out (snd (run_monitor svc st))) = [PStr ''Client connection established'']
          \<and> take 1 (out (snd (run_explore svc st))) = [PStr ''Client connection established'']
          \<and> take 3 (trace (snd (run_monitor svc st)))
               = [Connect notebook_config, IsLive, CollectionsGet COLLECTION_NAME]
          \<and> take 3 (trace (snd (run_explore svc st)))
               = [Connect notebook_config, IsLive, CollectionsGet COLLECTION_NAME])"
  using assms
  by (simp add: prog_defs split: sum.splits option.splits prod.splits)

theorem liveness_assertion_witness:
  "connect_result not_live_service = Inr () \<and> is_live_result not_live_service = Inr False
   \<and> fst (run_monitor not_live_service empty_store)
       = Inl (AssertionError ''Weaviate client is not live'')
   \<and> fst (run_explore not_live_service empty_store)
       = Inl (AssertionError ''Weaviate client is not live'')
   \<and> \<not> list_ex is_collection_call (trace (snd (run_monitor not_live_service empty_store)))
   \<and> connect_result (example_service None) = Inr ()
   \<and> is_live_result (example_service None) = Inr True
   \<and> take 1 (out (snd (run_monitor (example_service None) empty_store)))
       = [PStr ''Client connection established'']
   \<and> take 3 (trace (snd (run_explore (example_service None) empty_store)))
       = [Connect notebook_config, IsLive, CollectionsGet COLLECTION_NAME]"
  using liveness_assertion [of not_live_service False empty_store]
    liveness_assertion [of "example_service None" True empty_store]
  by (simp add: example_defs)

text \<open>
  C2, as stated, fails: when \<^verbatim>\<open>connect()\<close> raises after it has opened the connection,
  the \<^verbatim>\<open>with\<close> statement runs neither the body nor \<^verbatim>\<open>__exit__\<close>; the closing call
  is never issued and the connection is left open.
\<close>

theorem connection_left_open_counterexample:
  "fst (run_monitor startup_failure_service empty_store)
       = Inl (LibraryError ''WeaviateStartUpError'')
   \<and> trace (snd (run_monitor startup_failure_service empty_store)) = [Connect notebook_config]
   \<and> conn (snd (run_monitor startup_failure_service empty_store)) = Open
   \<and> fst (run_explore startup_failure_service empty_store)
       = Inl (LibraryError ''WeaviateStartUpError'')
   \<and> trace (snd (run_explore startup_failure_service empty_store)) = [Connect notebook_config]
   \<and> conn (snd (run_explore startup_failure_service empty_store)) = Open"
  by (simp add: prog_defs example_defs)

text \<open>
  C2, amended. Once the connection has been opened and the scope entered
  (\<^verbatim>\<open>__enter__\<close> has returned), the connection is closed when control leaves the scope,
  whether the body returns or raises: this holds for every body of the \<^verbatim>\<open>with\<close>
  statement and every starting state, the body's outcome is the statement's outcome, and
  in both notebooks the closing call is issued exactly once, as the last call. When
  \<^verbatim>\<open>connect()\<close> raises, the exception is the cell's outcome, no other call is issued,
  and the connection is left as \<^verbatim>\<open>connect()\<close> left it.
\<close>

theorem connection_closed_once_entered:
  "(case connect_result svc of
      Inr u \<Rightarrow>
        conn (snd (with_py (client_enter cfg svc) client_exit body w)) = Closed
        \<and> last (trace (snd (with_py (client_enter cfg svc) client_exit body w))) = Close
        \<and> fst (with_py (client_enter cfg svc) client_exit body w)
            = fst (body ()
                (w\<lparr>trace := trace w @ [Connect cfg],
                   store := server_effect (Connect cfg) (store w), conn := Open\<rparr>))
        \<and> conn (snd (run_monitor svc st)) = Closed
        \<and> conn (snd (run_explore svc st)) = Closed
        \<and> last (trace (snd (run_monitor svc st))) = Close
        \<and> last (trace (snd (run_explore svc st))) = Close
        \<and> count_list (trace (snd (run_monitor svc st))) Close = 1
        \<and> count_list (trace (snd (run_explore svc st))) Close = 1
    | Inl e \<Rightarrow>
        fst (run_monitor svc st) = Inl e
        \<and> fst (run_explore svc st) = Inl e
        \<and> trace (snd (run_monitor svc st)) = [Connect notebook_config]
        \<and> trace (snd (run_explore svc st)) = [Connect notebook_config]
        \<and> conn (snd (run_monitor svc st)) = (if connect_opened svc then Open else NotConnected)
        \<and> conn (snd (run_explore svc st)) = (if connect_opened svc then Open else NotConnected))"
proof (cases "connect_result svc")
  case (Inl e)
  then show ?thesis
    by (simp add: prog_defs)
next
  case (Inr u)
  have generic:
    "conn (snd (with_py (client_enter cfg svc) client_exit body w)) = Closed
     \<and> last (trace (snd (with_py (client_enter cfg svc) client_exit body w))) = Close
     \<and> fst (with_py (client_enter cfg svc) client_exit body w)
         = fst (body ()
             (w\<lparr>trace := trace w @ [Connect cfg],
                store := server_effect (Connect cfg) (store w), conn := Open\<rparr>))"
    using Inr
    by (simp add: with_py_def client_enter_def client_exit_def lib_call_def
        split: sum.splits prod.splits)
  have monitor:
    "conn (snd (run_monitor svc st)) = Closed
     \<and> last (trace (snd (run_monitor svc st))) = Close
     \<and> count_list (trace (snd (run_monitor svc st))) Close = 1"
    using Inr
    by (simp add: prog_defs split: sum.splits option.splits prod.splits)
  have explore:
    "conn (snd (run_explore svc st)) = Closed
     \<and> last (trace (snd (run_explore svc st))) = Close
     \<and> count_list (trace (snd (run_explore svc st))) Close = 1"
    using Inr
    by (simp add: prog_defs split: sum.splits option.splits prod.splits)
  from Inr generic monitor explore show ?thesis
    by simp
qed

text \<open>
  C3. Every call the notebooks issue is read-only: no run issues a call that creates,
  replaces or deletes a record, and the store after a run is the store before it.
\<close>

theorem sessions_read_only:
  "store (snd (run_monitor svc st)) = st
   \<and> store (snd (run_explore svc st)) = st
   \<and> \<not> list_ex is_write_call (trace (snd (run_monitor svc st)))
   \<and> \<not> list_ex is_write_call (trace (snd (run_explore svc st)))"
  by (simp add: prog_defs split: sum.splits option.splits prod.splits)

text \<open>
  C4, as stated, fails: when the service reports not-live the session cell prints
  nothing and never asks for the object count, and in a run where both numbers are
  computed the output is the two lines below, with no comparison.
\<close>

theorem comparison_counterexample:
  "fst (monitor_notebook (Dir [''a'', ''b'']) not_live_service empty_store) = Inr 2
   \<and> out (snd (snd (monitor_notebook (Dir [''a'', ''b'']) not_live_service empty_store))) = []
   \<and> \<not> list_ex is_collection_call
         (trace (snd (snd (monitor_notebook (Dir [''a'', ''b'']) not_live_service empty_store))))
   \<and> out (snd (snd (monitor_notebook (Dir [''a'', ''b'']) (example_service None) empty_store)))
       = [PStr ''Client connection established'',
          PStr ''Number of objects in Cap3DMM collection: 2'']"
  by (simp add: monitor_notebook_def monitor_dir_count_def iterdir_def len_def list_py_def
      prog_defs example_defs line_defs)

text \<open>
  C4, amended. The first cell of the monitor notebook evaluates to the number of entries
  of the directory. The second cell, when the client connects, is live and the collection
  and aggregate calls return, prints the object count the service reports; when the
  liveness check fails, the object count is never requested. The notebook computes no
  comparison of the two numbers: the second cell's run is the same for every directory,
  and the first cell's value is the same for every service and store.
\<close>

theorem monitor_reports_counts:
  "fst (monitor_notebook (Dir names) svc st) = Inr (int (length names))
   \<and> (connect_result svc = Inr () \<and> is_live_result svc = Inr True
        \<and> collections_get_result svc COLLECTION_NAME = Inr ()
        \<and> over_all_result svc COLLECTION_NAME = Inr n \<longrightarrow>
      take 2 (out (snd (snd (monitor_notebook p svc st))))
        = [PStr ''Client connection established'',
           PStr (number_of_objects_line COLLECTION_NAME n)])
   \<and> (is_live_result svc \<noteq> Inr True \<longrightarrow>
      \<not> list_ex is_collection_call (trace (snd (snd (monitor_notebook p svc st))))
      \<and> AggregateOverAll COLLECTION_NAME True
          \<notin> set (trace (snd (snd (monitor_notebook p svc st)))))
   \<and> snd (monitor_notebook p svc st) = snd (monitor_notebook p' svc st)
   \<and> fst (monitor_notebook p svc st) = fst (monitor_notebook p svc' st')"
proof -
  have cell1: "fst (monitor_notebook (Dir names) svc st) = Inr (int (length names))"
    by (simp add: monitor_notebook_def monitor_dir_count_Dir)
  have live:
    "connect_result svc = Inr () \<and> is_live_result svc = Inr True
       \<and> collections_get_result svc COLLECTION_NAME = Inr ()
       \<and> over_all_result svc COLLECTION_NAME = Inr n \<longrightarrow>
     take 2 (out (snd (snd (monitor_notebook p svc st))))
       = [PStr ''Client connection established'',
          PStr (number_of_objects_line COLLECTION_NAME n)]"
    by (simp add: monitor_notebook_def prog_defs split: sum.splits option.splits)
  have not_live:
    "is_live_result svc \<noteq> Inr True \<longrightarrow>
     \<not> list_ex is_collection_call (trace (snd (snd (monitor_notebook p svc st))))
     \<and> AggregateOverAll COLLECTION_NAME True
         \<notin> set (trace (snd (snd (monitor_notebook p svc st))))"
    by (simp add: monitor_notebook_def prog_defs split: sum.splits option.splits)
  have independent:
    "snd (monitor_notebook p svc st) = snd (monitor_notebook p' svc st)
     \<and> fst (monitor_notebook p svc st) = fst (monitor_notebook p svc' st')"
    by (simp add: monitor_notebook_def)
  from cell1 live not_live independent show ?thesis
    by blast
qed

theorem monitor_reports_counts_witness:
  "connect_result (example_service None) = Inr ()
   \<and> is_live_result (example_service None) = Inr True
   \<and> collections_get_result (example_service None) COLLECTION_NAME = Inr ()
   \<and> over_all_result (example_service None) COLLECTION_NAME = Inr 2
   \<and> fst (monitor_notebook (Dir [''a'', ''b'']) (example_service None) empty_store) = Inr 2
   \<and> take 2 (out (snd (snd (monitor_notebook (Dir [''a'', ''b'']) (example_service None)
         empty_store))))
       = [PStr ''Client connection established'',
          PStr ''Number of objects in Cap3DMM collection: 2'']
   \<and> is_live_result not_live_service \<noteq> Inr True
   \<and> \<not> list_ex is_collection_call
         (trace (snd (snd (monitor_notebook (Dir [''a'', ''b'']) not_live_service empty_store))))
   \<and> AggregateOverAll COLLECTION_NAME True
       \<notin> set (trace (snd (snd (monitor_notebook (Dir [''a'', ''b'']) not_live_service
                empty_store))))"
  using monitor_reports_counts [of "[''a'', ''b'']" "example_service None" empty_store 2
      "Dir [''a'', ''b'']" "Dir [''a'', ''b'']" not_live_service empty_store]
    monitor_reports_counts [of "[''a'', ''b'']" not_live_service empty_store 2
      "Dir [''a'', ''b'']" "Dir [''a'', ''b'']" not_live_service empty_store]
  by (simp add: example_defs line_defs)

text \<open>
  C5, as stated, fails: a record returned without a vector under \<^verbatim>\<open>default\<close> makes
  the cell end in \<^verbatim>\<open>KeyError\<close> with nothing printed about a vector, and a vector of
  three values is printed whole.
\<close>

theorem vector_report_counterexample:
  "fetch_object_by_id_result (example_service (Some object_without_default))
       COLLECTION_NAME monitor_uuid = Inr (Some object_without_default)
   \<and> fst (run_monitor (example_service (Some object_without_default)) empty_store)
       = Inl (KeyError ''default'')
   \<and> out (snd (run_monitor (example_service (Some object_without_default)) empty_store))
       = [PStr ''Client connection established'',
          PStr ''Number of objects in Cap3DMM collection: 2'']
   \<and> out (snd (run_monitor (example_service (Some (example_object [1, 2, 3]))) empty_store))
       = [PStr ''Client connection established'',
          PStr ''Number of objects in Cap3DMM collection: 2'',
          PType ''list'', PInt 3, PList [1, 2, 3]]"
  by (simp add: prog_defs example_defs len_def line_defs)

text \<open>
  C5, amended. In the monitor notebook, when the calls before the fetch succeed and the
  fetch returns: with no record, nothing about a vector is printed; with a record that
  has a vector under \<^verbatim>\<open>default\<close>, exactly three items are printed about it, in this
  order: its type, its length, and its first five values (all of them when it has fewer);
  with a record that has no vector under \<^verbatim>\<open>default\<close>, the cell ends in
  \<^verbatim>\<open>KeyError\<close> and nothing about a vector is printed.
\<close>

theorem monitor_vector_report:
  assumes "connect_result svc = Inr ()" and "is_live_result svc = Inr True"
    and "collections_get_result svc COLLECTION_NAME = Inr ()"
    and "over_all_result svc COLLECTION_NAME = Inr n"
    and "fetch_object_by_id_result svc COLLECTION_NAME monitor_uuid = Inr r"
  shows "case r of
        None \<Rightarrow>
          fst (run_monitor svc st) = Inr ()
          \<and> out (snd (run_monitor svc st)) =
              [PStr ''Client connection established'',
               PStr (number_of_objects_line COLLECTION_NAME n)]
      | Some ob \<Rightarrow>
          (case vector ob ''default'' of
             None \<Rightarrow>
               fst (run_monitor svc st) = Inl (KeyError ''default'')
               \<and> out (snd (run_monitor svc st)) =
                   [PStr ''Client connection established'',
                    PStr (number_of_objects_line COLLECTION_NAME n)]
           | Some v \<Rightarrow>
               fst (run_monitor svc st) = Inr ()
               \<and> out (snd (run_monitor svc st)) =
                   [PStr ''Client connection established'',
                    PStr (number_of_objects_line COLLECTION_NAME n),
                    PType ''list'', PInt (int (length v)), PList (take 5 v)])"
  using assms
  by (simp add: prog_defs len_def split: option.splits)

theorem monitor_vector_report_witness:
  "out (snd (run_monitor (example_service (Some (example_object [1, 2, 3, 4, 5, 6, 7])))
       empty_store))
     = [PStr ''Client connection established'',
        PStr ''Number of objects in Cap3DMM collection: 2'',
        PType ''list'', PInt 7, PList [1, 2, 3, 4, 5]]
   \<and> fst (run_monitor (example_service (Some object_without_default)) empty_store)
       = Inl (KeyError ''default'')
   \<and> out (snd (run_monitor (example_service None) empty_store))
     = [PStr ''Client connection established'',
        PStr ''Number of objects in Cap3DMM collection: 2'']"
  using monitor_vector_report [of "example_service (Some (example_object [1, 2, 3, 4, 5, 6, 7]))"
      2 "Some (example_object [1, 2, 3, 4, 5, 6, 7])" empty_store]
    monitor_vector_report [of "example_service (Some object_without_default)"
      2 "Some object_without_default" empty_store]
    monitor_vector_report [of "example_service None" 2 None empty_store]
  by (simp add: example_defs line_defs)

text \<open>
  C6. No exception is handled inside the scope. After a successful connection, an
  exception raised by any call of either notebook (the liveness check, getting a
  collection, the aggregate, the fetch) or by the lookup of a missing vector slot reaches
  the top level unchanged; the failing call is the last one issued before the connection
  is closed, so nothing is retried and nothing else is attempted.
\<close>

theorem exceptions_propagate:
  assumes "connect_result svc = Inr ()"
  shows "(is_live_result svc = Inl e \<longrightarrow>
            propagates (run_monitor svc st) e [IsLive]
          \<and> propagates (run_explore svc st) e [IsLive])
     \<and> (is_live_result svc = Inr True \<and> collections_get_result svc COLLECTION_NAME = Inl e \<longrightarrow>
            propagates (run_monitor svc st) e [IsLive, CollectionsGet COLLECTION_NAME]
          \<and> propagates (run_explore svc st) e [IsLive, CollectionsGet COLLECTION_NAME])
     \<and> (is_live_result svc = Inr True \<and> collections_get_result svc COLLECTION_NAME = Inr ()
          \<and> over_all_result svc COLLECTION_NAME = Inl e \<longrightarrow>
            propagates (run_monitor svc st) e
              [IsLive, CollectionsGet COLLECTION_NAME, AggregateOverAll COLLECTION_NAME True]
          \<and> propagates (run_explore svc st) e
              [IsLive, CollectionsGet COLLECTION_NAME, AggregateOverAll COLLECTION_NAME True])
     \<and> (is_live_result svc = Inr True \<and> collections_get_result svc COLLECTION_NAME = Inr ()
          \<and> over_all_result svc COLLECTION_NAME = Inr n
          \<and> fetch_object_by_id_result svc COLLECTION_NAME monitor_uuid = Inl e \<longrightarrow>
            propagates (run_monitor svc st) e
              [IsLive, CollectionsGet COLLECTION_NAME, AggregateOverAll COLLECTION_NAME True,
               FetchObjectById COLLECTION_NAME monitor_uuid True])
     \<and> (is_live_result svc = Inr True \<and> collections_get_result svc COLLECTION_NAME = Inr ()
          \<and> over_all_result svc COLLECTION_NAME = Inr n
          \<and> fetch_object_by_id_result svc COLLECTION_NAME monitor_uuid = Inr (Some ob)
          \<and> vector ob ''default'' = None \<longrightarrow>
            propagates (run_monitor svc st) (KeyError ''default'')
              [IsLive, CollectionsGet COLLECTION_NAME, AggregateOverAll COLLECTION_NAME True,
               FetchObjectById COLLECTION_NAME monitor_uuid True])
     \<and> (is_live_result svc = Inr True \<and> collections_get_result svc COLLECTION_NAME = Inr ()
          \<and> over_all_result svc COLLECTION_NAME = Inr n
          \<and> collections_get_result svc DATA_UPLOAD_COLLECTION_NAME = Inl e \<longrightarrow>
            propagates (run_explore svc st) e
              [IsLive, CollectionsGet COLLECTION_NAME, AggregateOverAll COLLECTION_NAME True,
               CollectionsGet DATA_UPLOAD_COLLECTION_NAME])
     \<and> (is_live_result svc = Inr True \<and> collections_get_result svc COLLECTION_NAME = Inr ()
          \<and> over_all_result svc COLLECTION_NAME = Inr n
          \<and> collections_get_result svc DATA_UPLOAD_COLLECTION_NAME = Inr ()
          \<and> over_all_result svc DATA_UPLOAD_COLLECTION_NAME = Inl e \<longrightarrow>
            propagates (run_explore svc st) e
              [IsLive, CollectionsGet COLLECTION_NAME, AggregateOverAll COLLECTION_NAME True,
               CollectionsGet DATA_UPLOAD_COLLECTION_NAME,
               AggregateOverAll DATA_UPLOAD_COLLECTION_NAME True])
     \<and> (is_live_result svc = Inr True \<and> collections_get_result svc COLLECTION_NAME = Inr ()
          \<and> over_all_result svc COLLECTION_NAME = Inr n
          \<and> collections_get_result svc DATA_UPLOAD_COLLECTION_NAME = Inr ()
          \<and> over_all_result svc DATA_UPLOAD_COLLECTION_NAME = Inr m
          \<and> fetch_object_by_id_result svc COLLECTION_NAME (explore_uuids ! 0) = Inl e \<longrightarrow>
            propagates (run_explore svc st) e
              [IsLive, CollectionsGet COLLECTION_NAME, AggregateOverAll COLLECTION_NAME True,
               CollectionsGet DATA_UPLOAD_COLLECTION_NAME,
               AggregateOverAll DATA_UPLOAD_COLLECTION_NAME True,
               FetchObjectById COLLECTION_NAME (explore_uuids ! 0) True])"
  using assms
  by (simp add: prog_defs propagates_def)

theorem exceptions_propagate_witness:
  "propagates (run_monitor (faulty_service AtIsLive timeout_error None) empty_store)
     timeout_error [IsLive]
   \<and> propagates
       (run_explore (faulty_service (AtCollectionsGet COLLECTION_NAME) timeout_error None)
          empty_store)
       timeout_error [IsLive, CollectionsGet COLLECTION_NAME]
   \<and> propagates
       (run_monitor (faulty_service (AtOverAll COLLECTION_NAME) timeout_error None) empty_store)
       timeout_error
       [IsLive, CollectionsGet COLLECTION_NAME, AggregateOverAll COLLECTION_NAME True]
   \<and> propagates
       (run_monitor (faulty_service (AtFetchObjectById COLLECTION_NAME monitor_uuid)
          timeout_error None) empty_store)
       timeout_error
       [IsLive, CollectionsGet COLLECTION_NAME, AggregateOverAll COLLECTION_NAME True,
        FetchObjectById COLLECTION_NAME monitor_uuid True]
   \<and> propagates (run_monitor (example_service (Some object_without_default)) empty_store)
       (KeyError ''default'')
       [IsLive, CollectionsGet COLLECTION_NAME, AggregateOverAll COLLECTION_NAME True,
        FetchObjectById COLLECTION_NAME monitor_uuid True]
   \<and> propagates
       (run_explore (faulty_service (AtCollectionsGet DATA_UPLOAD_COLLECTION_NAME)
          timeout_error None) empty_store)
       timeout_error
       [IsLive, CollectionsGet COLLECTION_NAME, AggregateOverAll COLLECTION_NAME True,
        CollectionsGet DATA_UPLOAD_COLLECTION_NAME]
   \<and> propagates
       (run_explore (faulty_service (AtOverAll DATA_UPLOAD_COLLECTION_NAME) timeout_error None)
          empty_store)
       timeout_error
       [IsLive, CollectionsGet COLLECTION_NAME, AggregateOverAll COLLECTION_NAME True,
        CollectionsGet DATA_UPLOAD_COLLECTION_NAME,
        AggregateOverAll DATA_UPLOAD_COLLECTION_NAME True]
   \<and> propagates
       (run_explore (faulty_service (AtFetchObjectById COLLECTION_NAME (explore_uuids ! 0))
          timeout_error None) empty_store)
       timeout_error
       [IsLive, CollectionsGet COLLECTION_NAME, AggregateOverAll COLLECTION_NAME True,
        CollectionsGet DATA_UPLOAD_COLLECTION_NAME,
        AggregateOverAll DATA_UPLOAD_COLLECTION_NAME True,
        FetchObjectById COLLECTION_NAME (explore_uuids ! 0) True]"
proof -
  have names: "COLLECTION_NAME \<noteq> DATA_UPLOAD_COLLECTION_NAME"
    by (simp add: COLLECTION_NAME_def DATA_UPLOAD_COLLECTION_NAME_def)
  show ?thesis
    using names
      exceptions_propagate [of "faulty_service AtIsLive timeout_error None"
        timeout_error empty_store 2 object_without_default 2]
      exceptions_propagate [of "faulty_service (AtCollectionsGet COLLECTION_NAME) timeout_error None"
        timeout_error empty_store 2 object_without_default 2]
      exceptions_propagate [of "faulty_service (AtOverAll COLLECTION_NAME) timeout_error None"
        timeout_error empty_store 2 object_without_default 2]
      exceptions_propagate [of "faulty_service (AtFetchObjectById COLLECTION_NAME monitor_uuid)
          timeout_error None"
        timeout_error empty_store 2 object_without_default 2]
      exceptions_propagate [of "example_service (Some object_without_default)"
        timeout_error empty_store 2 object_without_default 2]
      exceptions_propagate [of "faulty_service (AtCollectionsGet DATA_UPLOAD_COLLECTION_NAME)
          timeout_error None"
        timeout_error empty_store 2 object_without_default 2]
      exceptions_propagate [of "faulty_service (AtOverAll DATA_UPLOAD_COLLECTION_NAME)
          timeout_error None"
        timeout_error empty_store 2 object_without_default 2]
      exceptions_propagate [of "faulty_service (AtFetchObjectById COLLECTION_NAME (explore_uuids ! 0))
          timeout_error None"
        timeout_error empty_store 2 object_without_default 2]
    by (simp add: faulty_service_def example_service_def object_without_default_def)
qed

text \<open>
  C9. Both notebooks open the client with the same configuration, whatever the service
  does: two endpoints on the same host (HTTP port 8080 and gRPC port 50051), one security
  flag for each, and three timeouts (initialisation, query, insert).
\<close>

theorem client_configuration:
  "take 1 (trace (snd (run_monitor svc st))) = [Connect notebook_config]
   \<and> take 1 (trace (snd (run_explore svc st))) = [Connect notebook_config]
   \<and> connection_params notebook_config =
       \<lparr>http_host = ''localhost'', http_port = 8080, http_secure = False,
        grpc_host = ''localhost'', grpc_port = 50051, grpc_secure = False\<rparr>
   \<and> http_host (connection_params notebook_config) = grpc_host (connection_params notebook_config)
   \<and> additional_config notebook_config = \<lparr>init = 2, query = 45, insert = 120\<rparr>"
proof -
  have "take 1 (trace (snd (run_monitor svc st))) = [Connect notebook_config]"
    by (simp add: prog_defs split: sum.splits option.splits prod.splits)
  moreover have "take 1 (trace (snd (run_explore svc st))) = [Connect notebook_config]"
    by (simp add: prog_defs split: sum.splits option.splits prod.splits)
  ultimately show ?thesis
    by (simp add: config_defs)
qed

text \<open>
  C10, as stated, fails: when the liveness probe cannot reach the service, the library's
  \<^verbatim>\<open>is_live()\<close> prints the transport error before it returns \<^verbatim>\<open>False\<close>, so standard
  output is not empty when the assertion error is raised.
\<close>

theorem not_live_output_counterexample:
  "is_live_result unreachable_service = Inr False
   \<and> fst (run_monitor unreachable_service empty_store)
       = Inl (AssertionError ''Weaviate client is not live'')
   \<and> out (snd (run_monitor unreachable_service empty_store))
       = [PStr ''[Errno 111] Connection refused'']
   \<and> fst (run_explore unreachable_service empty_store)
       = Inl (AssertionError ''Weaviate client is not live'')
   \<and> out (snd (run_explore unreachable_service empty_store))
       = [PStr ''[Errno 111] Connection refused'']"
  by (simp add: prog_defs example_defs)

text \<open>
  C10, amended. When the liveness check fails (it reports not-live, or raises), the
  notebook's own code has printed nothing: standard output holds only what the library's
  \<^verbatim>\<open>is_live()\<close> printed itself, that is the transport error it caught, if any, and
  nothing otherwise. So \<^verbatim>\<open>Client connection established\<close> is not printed (unless it is
  the library's own text), and no collection call has been issued: the trace is the
  connection, the liveness check and the closing.
\<close>

theorem not_live_prints_only_library_output:
  assumes "connect_result svc = Inr ()" and "is_live_result svc \<noteq> Inr True"
  shows "out (snd (run_monitor svc st))
           = (case is_live_result svc of
                Inl e \<Rightarrow> []
              | Inr live \<Rightarrow>
                  (case is_live_caught svc of None \<Rightarrow> [] | Some msg \<Rightarrow> [PStr msg]))
       \<and> out (snd (run_explore svc st)) = out (snd (run_monitor svc st))
       \<and> (is_live_caught svc \<noteq> Some ''Client connection established'' \<longrightarrow>
            PStr ''Client connection established'' \<notin> set (out (snd (run_monitor svc st)))
          \<and> PStr ''Client connection established'' \<notin> set (out (snd (run_explore svc st))))
       \<and> trace (snd (run_monitor svc st)) = [Connect notebook_config, IsLive, Close]
       \<and> trace (snd (run_explore svc st)) = [Connect notebook_config, IsLive, Close]"
  using assms
  by (simp add: prog_defs split: sum.splits option.splits)

theorem not_live_prints_only_library_output_witness:
  "connect_result unreachable_service = Inr () \<and> is_live_result unreachable_service \<noteq> Inr True
   \<and> is_live_caught unreachable_service \<noteq> Some ''Client connection established''
   \<and> out (snd (run_monitor unreachable_service empty_store))
       = [PStr ''[Errno 111] Connection refused'']
   \<and> PStr ''Client connection established''
       \<notin> set (out (snd (run_monitor unreachable_service empty_store)))
   \<and> trace (snd (run_explore unreachable_service empty_store))
       = [Connect notebook_config, IsLive, Close]
   \<and> connect_result not_live_service = Inr () \<and> is_live_result not_live_service \<noteq> Inr True
   \<and> out (snd (run_monitor not_live_service empty_store)) = []
   \<and> out (snd (run_explore not_live_service empty_store)) = []"
  using not_live_prints_only_library_output [of unreachable_service empty_store]
    not_live_prints_only_library_output [of not_live_service empty_store]
  by (simp add: example_defs)

end
